theory Spec2Isabelle
  imports Main "HOL-Library.Monad_Syntax"
begin

section \<open>The data model (types/grid.ts)\<close>

text \<open>
  TypeScript's \<open>number\<close> is modelled by \<open>int\<close>: row and column indices, track counts,
  gaps and track values are integers wherever the engine itself produces them. The
  non-finite numbers (NaN, the infinities) are outside the model. An optional field
  (\<open>areaName?\<close>) is an \<open>option\<close>: \<open>None\<close> stands for a field that is absent or
  \<open>undefined\<close>.
\<close>

record GridCell =
  row :: int
  column :: int

datatype TrackSize = Fr int | Px int | Percent int | Auto | Minmax string string

datatype PlaceItems = PlaceStart | PlaceEnd | PlaceCenter | PlaceStretch | PlaceNormal

datatype SelfAlign = SelfStart | SelfEnd | SelfCenter | SelfStretch

record GridDefinition =
  rowCount :: int
  columnCount :: int
  rowSizes :: "TrackSize list"
  columnSizes :: "TrackSize list"
  gap :: int
  rowGap :: int
  columnGap :: int
  placeItems :: PlaceItems

record GridChild =
  id_c :: string
  name :: string
  cells :: "GridCell list"
  locked :: bool
  areaName :: "string option"
  justifySelf :: "SelfAlign option"
  alignSelf :: "SelfAlign option"

datatype BreakpointId = Desktop | Tablet | Mobile

record BreakpointConfig =
  grid :: GridDefinition
  children :: "GridChild list"

text \<open>\<open>Record<BreakpointId, BreakpointConfig>\<close>: one configuration for each of the three ids.\<close>

record Breakpoints =
  desktop :: BreakpointConfig
  tablet :: BreakpointConfig
  mobile :: BreakpointConfig

record LayoutState =
  activeBreakpoint :: BreakpointId
  breakpoints :: Breakpoints

text \<open>\<open>bps[bp]\<close> and \<open>{ ...bps, [bp]: config }\<close>.\<close>

fun bp_get :: "Breakpoints \<Rightarrow> BreakpointId \<Rightarrow> BreakpointConfig" where
  "bp_get b Desktop = desktop b"
| "bp_get b Tablet = tablet b"
| "bp_get b Mobile = mobile b"

fun bp_set :: "Breakpoints \<Rightarrow> BreakpointId \<Rightarrow> BreakpointConfig \<Rightarrow> Breakpoints" where
  "bp_set b Desktop c = b\<lparr>desktop := c\<rparr>"
| "bp_set b Tablet c = b\<lparr>tablet := c\<rparr>"
| "bp_set b Mobile c = b\<lparr>mobile := c\<rparr>"

definition defaultTrackSize :: TrackSize where
  "defaultTrackSize = Fr 1"

definition defaultGridDefinition :: "nat \<Rightarrow> nat \<Rightarrow> GridDefinition" where
  "defaultGridDefinition rc cc =
     \<lparr>rowCount = int rc, columnCount = int cc,
      rowSizes = replicate rc defaultTrackSize,
      columnSizes = replicate cc defaultTrackSize,
      gap = 16, rowGap = 16, columnGap = 16, placeItems = PlaceStretch\<rparr>"

definition defaultBreakpointConfig :: "nat \<Rightarrow> nat \<Rightarrow> BreakpointConfig" where
  "defaultBreakpointConfig rc cc = \<lparr>grid = defaultGridDefinition rc cc, children = []\<rparr>"

definition defaultLayoutState :: LayoutState where
  "defaultLayoutState =
     \<lparr>activeBreakpoint = Desktop,
      breakpoints = \<lparr>desktop = defaultBreakpointConfig 3 4,
                     tablet = defaultBreakpointConfig 3 3,
                     mobile = defaultBreakpointConfig 4 2\<rparr>\<rparr>"

section \<open>JSON values\<close>

text \<open>
  The values \<open>JSON.parse\<close> returns. An object is the list of its keys and values, read by
  key (the first entry of a key counts).
\<close>

datatype json =
    JNull
  | JBool bool
  | JNum int
  | JStr string
  | JArr "json list"
  | JObj "(string \<times> json) list"

text \<open>\<open>v.k\<close> on a value that is not null: \<open>None\<close> is \<open>undefined\<close>.\<close>

definition getProp :: "json \<Rightarrow> string \<Rightarrow> json option" where
  "getProp j k = (case j of JObj kvs \<Rightarrow> map_of kvs k | _ \<Rightarrow> None)"

text \<open>JavaScript's truthiness, \<open>undefined\<close> included.\<close>

fun truthy :: "json option \<Rightarrow> bool" where
  "truthy None = False"
| "truthy (Some JNull) = False"
| "truthy (Some (JBool b)) = b"
| "truthy (Some (JNum n)) = (n \<noteq> 0)"
| "truthy (Some (JStr s)) = (s \<noteq> [])"
| "truthy (Some (JArr _)) = True"
| "truthy (Some (JObj _)) = True"

subsection \<open>The JSON value of a typed value\<close>

text \<open>
  What \<open>JSON.stringify\<close> writes for a value of each type, as the value \<open>JSON.parse\<close>
  reads back from that text: a field that is \<open>undefined\<close> is left out.
\<close>

definition cell_json :: "GridCell \<Rightarrow> json" where
  "cell_json c = JObj [(''row'', JNum (row c)), (''column'', JNum (column c))]"

fun track_json :: "TrackSize \<Rightarrow> json" where
  "track_json (Fr v) = JObj [(''type'', JStr ''fr''), (''value'', JNum v)]"
| "track_json (Px v) = JObj [(''type'', JStr ''px''), (''value'', JNum v)]"
| "track_json (Percent v) = JObj [(''type'', JStr ''percent''), (''value'', JNum v)]"
| "track_json Auto = JObj [(''type'', JStr ''auto'')]"
| "track_json (Minmax lo hi) =
     JObj [(''type'', JStr ''minmax''), (''min'', JStr lo), (''max'', JStr hi)]"

fun placeItems_json :: "PlaceItems \<Rightarrow> json" where
  "placeItems_json PlaceStart = JStr ''start''"
| "placeItems_json PlaceEnd = JStr ''end''"
| "placeItems_json PlaceCenter = JStr ''center''"
| "placeItems_json PlaceStretch = JStr ''stretch''"
| "placeItems_json PlaceNormal = JStr ''normal''"

fun selfAlign_json :: "SelfAlign \<Rightarrow> json" where
  "selfAlign_json SelfStart = JStr ''start''"
| "selfAlign_json SelfEnd = JStr ''end''"
| "selfAlign_json SelfCenter = JStr ''center''"
| "selfAlign_json SelfStretch = JStr ''stretch''"

fun breakpointId_json :: "BreakpointId \<Rightarrow> json" where
  "breakpointId_json Desktop = JStr ''desktop''"
| "breakpointId_json Tablet = JStr ''tablet''"
| "breakpointId_json Mobile = JStr ''mobile''"

definition grid_json :: "GridDefinition \<Rightarrow> json" where
  "grid_json g =
     JObj [(''rowCount'', JNum (rowCount g)),
           (''columnCount'', JNum (columnCount g)),
           (''rowSizes'', JArr (map track_json (rowSizes g))),
           (''columnSizes'', JArr (map track_json (columnSizes g))),
           (''gap'', JNum (gap g)),
           (''rowGap'', JNum (rowGap g)),
           (''columnGap'', JNum (columnGap g)),
           (''placeItems'', placeItems_json (placeItems g))]"

fun optional_field :: "string \<Rightarrow> json option \<Rightarrow> (string \<times> json) list" where
  "optional_field k None = []"
| "optional_field k (Some v) = [(k, v)]"

definition child_json :: "GridChild \<Rightarrow> json" where
  "child_json c =
     JObj ([(''id'', JStr (id_c c)),
            (''name'', JStr (name c)),
            (''cells'', JArr (map cell_json (cells c))),
            (''locked'', JBool (locked c))]
           @ optional_field ''areaName'' (map_option JStr (areaName c))
           @ optional_field ''justifySelf'' (map_option selfAlign_json (justifySelf c))
           @ optional_field ''alignSelf'' (map_option selfAlign_json (alignSelf c)))"

definition config_json :: "BreakpointConfig \<Rightarrow> json" where
  "config_json c =
     JObj [(''grid'', grid_json (grid c)), (''children'', JArr (map child_json (children c)))]"

definition breakpoints_json :: "Breakpoints \<Rightarrow> json" where
  "breakpoints_json b =
     JObj [(''desktop'', config_json (desktop b)),
           (''tablet'', config_json (tablet b)),
           (''mobile'', config_json (mobile b))]"

definition layout_json :: "LayoutState \<Rightarrow> json" where
  "layout_json s =
     JObj [(''activeBreakpoint'', breakpointId_json (activeBreakpoint s)),
           (''breakpoints'', breakpoints_json (breakpoints s))]"

subsection \<open>Reading a JSON value at a type\<close>

text \<open>
  The unchecked casts of the source (\<open>JSON.parse(...)\<close> returned as a \<open>LayoutState\<close>):
  the typed value a JSON value is, when it has the shape of the type, and \<open>None\<close> when
  it has not. Keys the type does not declare are not looked at.
\<close>

fun asNum :: "json \<Rightarrow> int option" where
  "asNum (JNum n) = Some n"
| "asNum _ = None"

fun asStr :: "json \<Rightarrow> string option" where
  "asStr (JStr s) = Some s"
| "asStr _ = None"

fun asBool :: "json \<Rightarrow> bool option" where
  "asBool (JBool b) = Some b"
| "asBool _ = None"

fun asArr :: "json \<Rightarrow> json list option" where
  "asArr (JArr js) = Some js"
| "asArr _ = None"

definition field :: "json \<Rightarrow> string \<Rightarrow> (json \<Rightarrow> 'a option) \<Rightarrow> 'a option" where
  "field j k as = (case getProp j k of None \<Rightarrow> None | Some v \<Rightarrow> as v)"

definition field_opt :: "json \<Rightarrow> string \<Rightarrow> (json \<Rightarrow> 'a option) \<Rightarrow> 'a option option" where
  "field_opt j k as = (case getProp j k of None \<Rightarrow> Some None | Some v \<Rightarrow> map_option Some (as v))"

definition asList :: "(json \<Rightarrow> 'a option) \<Rightarrow> json \<Rightarrow> 'a list option" where
  "asList as j = (case asArr j of None \<Rightarrow> None | Some js \<Rightarrow> those (map as js))"

definition asCell :: "json \<Rightarrow> GridCell option" where
  "asCell j = do {
     r \<leftarrow> field j ''row'' asNum;
     c \<leftarrow> field j ''column'' asNum;
     Some \<lparr>row = r, column = c\<rparr> }"

definition asTrackSize :: "json \<Rightarrow> TrackSize option" where
  "asTrackSize j = do {
     t \<leftarrow> field j ''type'' asStr;
     if t = ''fr'' then map_option Fr (field j ''value'' asNum)
     else if t = ''px'' then map_option Px (field j ''value'' asNum)
     else if t = ''percent'' then map_option Percent (field j ''value'' asNum)
     else if t = ''auto'' then Some Auto
     else if t = ''minmax'' then do {
       lo \<leftarrow> field j ''min'' asStr;
       hi \<leftarrow> field j ''max'' asStr;
       Some (Minmax lo hi) }
     else None }"

definition asPlaceItems :: "json \<Rightarrow> PlaceItems option" where
  "asPlaceItems j = do {
     t \<leftarrow> asStr j;
     if t = ''start'' then Some PlaceStart
     else if t = ''end'' then Some PlaceEnd
     else if t = ''center'' then Some PlaceCenter
     else if t = ''stretch'' then Some PlaceStretch
     else if t = ''normal'' then Some PlaceNormal
     else None }"

definition asSelfAlign :: "json \<Rightarrow> SelfAlign option" where
  "asSelfAlign j = do {
     t \<leftarrow> asStr j;
     if t = ''start'' then Some SelfStart
     else if t = ''end'' then Some SelfEnd
     else if t = ''center'' then Some SelfCenter
     else if t = ''stretch'' then Some SelfStretch
     else None }"

definition asBreakpointId :: "json \<Rightarrow> BreakpointId option" where
  "asBreakpointId j = do {
     t \<leftarrow> asStr j;
     if t = ''desktop'' then Some Desktop
     else if t = ''tablet'' then Some Tablet
     else if t = ''mobile'' then Some Mobile
     else None }"

definition asGridDefinition :: "json \<Rightarrow> GridDefinition option" where
  "asGridDefinition j = do {
     rc \<leftarrow> field j ''rowCount'' asNum;
     cc \<leftarrow> field j ''columnCount'' asNum;
     rs \<leftarrow> field j ''rowSizes'' (asList asTrackSize);
     cs \<leftarrow> field j ''columnSizes'' (asList asTrackSize);
     g \<leftarrow> field j ''gap'' asNum;
     rg \<leftarrow> field j ''rowGap'' asNum;
     cg \<leftarrow> field j ''columnGap'' asNum;
     p \<leftarrow> field j ''placeItems'' asPlaceItems;
     Some \<lparr>rowCount = rc, columnCount = cc, rowSizes = rs, columnSizes = cs,
           gap = g, rowGap = rg, columnGap = cg, placeItems = p\<rparr> }"

definition asGridChild :: "json \<Rightarrow> GridChild option" where
  "asGridChild j = do {
     i \<leftarrow> field j ''id'' asStr;
     n \<leftarrow> field j ''name'' asStr;
     cs \<leftarrow> field j ''cells'' (asList asCell);
     l \<leftarrow> field j ''locked'' asBool;
     a \<leftarrow> field_opt j ''areaName'' asStr;
     js \<leftarrow> field_opt j ''justifySelf'' asSelfAlign;
     al \<leftarrow> field_opt j ''alignSelf'' asSelfAlign;
     Some \<lparr>id_c = i, name = n, cells = cs, locked = l, areaName = a,
           justifySelf = js, alignSelf = al\<rparr> }"

definition asBreakpointConfig :: "json \<Rightarrow> BreakpointConfig option" where
  "asBreakpointConfig j = do {
     g \<leftarrow> field j ''grid'' asGridDefinition;
     cs \<leftarrow> field j ''children'' (asList asGridChild);
     Some \<lparr>grid = g, children = cs\<rparr> }"

definition asBreakpoints :: "json \<Rightarrow> Breakpoints option" where
  "asBreakpoints j = do {
     d \<leftarrow> field j ''desktop'' asBreakpointConfig;
     t \<leftarrow> field j ''tablet'' asBreakpointConfig;
     m \<leftarrow> field j ''mobile'' asBreakpointConfig;
     Some \<lparr>desktop = d, tablet = t, mobile = m\<rparr> }"

definition asLayoutState :: "json \<Rightarrow> LayoutState option" where
  "asLayoutState j = do {
     a \<leftarrow> field j ''activeBreakpoint'' asBreakpointId;
     b \<leftarrow> field j ''breakpoints'' asBreakpoints;
     Some \<lparr>activeBreakpoint = a, breakpoints = b\<rparr> }"

text \<open>
  \<open>deepCloneState(state) = JSON.parse(JSON.stringify(state))\<close>: the JSON value of the
  state, read back as a \<open>LayoutState\<close>.
\<close>

definition deepCloneState :: "LayoutState \<Rightarrow> LayoutState" where
  "deepCloneState s = (case asLayoutState (layout_json s) of Some s' \<Rightarrow> s' | None \<Rightarrow> s)"

section \<open>Numbers as text\<close>

text \<open>
  The text a template literal writes for an integer (\<open>`${n}`\<close>: decimal digits, a minus
  sign first for a negative number), and \<open>Number(text)\<close> on the decimal text of an
  integer. \<open>Number\<close> is \<open>None\<close> on any other text: the source only applies it to the
  two parts of a cell key.
\<close>

definition digit_char :: "nat \<Rightarrow> char" where
  "digit_char d = char_of (48 + d)"

function show_nat :: "nat \<Rightarrow> string" where
  "show_nat n = (if n < 10 then [digit_char n] else show_nat (n div 10) @ [digit_char (n mod 10)])"
  by pat_completeness auto
termination
  by (relation "measure (\<lambda>n. n)") auto

definition show_int :: "int \<Rightarrow> string" where
  "show_int i = (if i < 0 then CHR ''-'' # show_nat (nat (- i)) else show_nat (nat i))"


definition digit_val :: "char \<Rightarrow> nat" where
  "digit_val ch = of_char ch - 48"

definition read_nat :: "string \<Rightarrow> nat" where
  "read_nat s = foldl (\<lambda>a ch. 10 * a + digit_val ch) 0 s"



text \<open>ASCII white space, as \<open>trim()\<close> and the pattern \<open>\s\<close> see it.\<close>

definition is_space :: "char \<Rightarrow> bool" where
  "is_space ch = (ch = CHR '' '' \<or> (9 \<le> (of_char ch :: nat) \<and> (of_char ch :: nat) \<le> 13))"

definition trim :: "string \<Rightarrow> string" where
  "trim s = rev (dropWhile is_space (rev (dropWhile is_space s)))"

subsection \<open>Reading back what was written\<close>

text \<open>
  \<open>Number\<close> reads back the integer a template literal wrote, so the text of an integer
  determines it. The loops below that search a set of such texts end for this reason.
\<close>

declare show_nat.simps [simp del]

lemma digit_val_digit_char: "d < 10 \<Longrightarrow> digit_val (digit_char d) = d"
  by (simp add: digit_val_def digit_char_def)


lemma read_nat_snoc: "read_nat (s @ [ch]) = 10 * read_nat s + digit_val ch"
  by (simp add: read_nat_def)

lemma read_show_nat: "read_nat (show_nat n) = n"
proof (induction n rule: show_nat.induct)
  case (1 n)
  show ?case
  proof (cases "n < 10")
    case True
    then show ?thesis
      by (subst show_nat.simps) (simp add: read_nat_def digit_val_digit_char)
  next
    case False
    with 1 show ?thesis
      by (subst show_nat.simps) (simp add: read_nat_snoc digit_val_digit_char)
  qed
qed



lemma show_nat_inj: "show_nat m = show_nat n \<Longrightarrow> m = n"
  by (metis read_show_nat)








section \<open>Selection geometry (utils/selection.ts)\<close>

definition cellKey :: "GridCell \<Rightarrow> string" where
  "cellKey cell = show_int (row cell) @ '','' @ show_int (column cell)"

text \<open>
  A JavaScript \<open>Set\<close> of strings keeps its members in insertion order: a list without
  duplicates. \<open>set_add\<close> is \<open>Set.add\<close>, \<open>set_delete\<close> is \<open>Set.delete\<close>, and \<open>new_Set\<close>
  builds a set from an array.
\<close>

definition set_add :: "'a \<Rightarrow> 'a list \<Rightarrow> 'a list" where
  "set_add x S = (if x \<in> set S then S else S @ [x])"





definition expandToBoundingBox :: "GridCell list \<Rightarrow> GridCell list" where
  "expandToBoundingBox cs =
     (if length cs = 0 then []
      else
        let rows = map row cs;
            cols = map column cs;
            minR = Min (set rows);
            maxR = Max (set rows);
            minC = Min (set cols);
            maxC = Max (set cols)
        in concat (map (\<lambda>r. map (\<lambda>c. \<lparr>row = r, column = c\<rparr>) [minC..maxC]) [minR..maxR]))"

subsection \<open>\<open>splitIntoRectangles\<close>\<close>

text \<open>\<open>has(r, c)\<close> of \<open>splitIntoRectangles\<close>, on the set \<open>S\<close> of the keys that remain.\<close>

definition has :: "string list \<Rightarrow> int \<Rightarrow> int \<Rightarrow> bool" where
  "has S r c = (show_int r @ '','' @ show_int c \<in> set S)"











section \<open>Code generation (utils/codegen.ts)\<close>

text \<open>\<open>s.replace(/\s+/g, '-')\<close>: every maximal run of white space becomes one hyphen.\<close>

function replace_spaces :: "string \<Rightarrow> string" where
  "replace_spaces [] = []"
| "replace_spaces (ch # s) =
     (if is_space ch then CHR ''-'' # replace_spaces (dropWhile is_space s)
      else ch # replace_spaces s)"
  by pat_completeness auto
termination
  by (relation "measure length") (auto simp: length_dropWhile_le less_Suc_eq_le)

definition toClassName :: "string \<Rightarrow> string" where
  "toClassName nm = (let s = replace_spaces (trim nm) in if s = [] then ''child'' else s)"

text \<open>
  The matrix of \<open>generateTemplateAreas\<close>. An element is \<open>null\<close> (\<open>Null\<close>), an area name, or
  a hole: an assignment \<open>row[c] = v\<close> beyond the end of a JavaScript array lengthens the
  array and leaves holes before \<open>c\<close>.
\<close>

datatype slot = Hole | Null | Named string

datatype js_error = TypeError | RangeError

text \<open>\<open>row[c] = a\<close>: a negative index sets a property that is no element of the array.\<close>

definition set_slot :: "slot list \<Rightarrow> int \<Rightarrow> string \<Rightarrow> slot list" where
  "set_slot rw c a =
     (if c < 0 then rw
      else if nat c < length rw then rw[nat c := Named a]
      else rw @ replicate (nat c - length rw) Hole @ [Named a])"

text \<open>\<open>grid[r][c] = a\<close>: \<open>grid[r]\<close> is \<open>undefined\<close> for a row index out of range, and the
  assignment to its element throws a TypeError.\<close>

definition paint_cell :: "slot list list \<Rightarrow> int \<Rightarrow> int \<Rightarrow> string \<Rightarrow> js_error + slot list list" where
  "paint_cell g r c a =
     (if 0 \<le> r \<and> nat r < length g then Inr (g[nat r := set_slot (g ! nat r) c a])
      else Inl TypeError)"

fun paint_cells :: "slot list list \<Rightarrow> (int \<times> int) list \<Rightarrow> string \<Rightarrow> js_error + slot list list" where
  "paint_cells g [] a = Inr g"
| "paint_cells g ((r, c) # ps) a =
     (case paint_cell g r c a of Inl e \<Rightarrow> Inl e | Inr g' \<Rightarrow> paint_cells g' ps a)"

text \<open>
  One turn of the loop over the children. For a child without cells \<open>Math.min()\<close> is
  \<open>Infinity\<close> and \<open>Math.max()\<close> is \<open>-Infinity\<close>, so neither loop runs.
\<close>

definition paint_child :: "slot list list \<Rightarrow> GridChild \<Rightarrow> js_error + slot list list" where
  "paint_child g ch =
     (let a = toClassName (case areaName ch of Some n \<Rightarrow> n | None \<Rightarrow> name ch) in
      if a = [] then Inr g
      else if cells ch = [] then Inr g
      else
        let rows = map row (cells ch);
            cols = map column (cells ch);
            minR = Min (set rows);
            maxR = Max (set rows);
            minC = Min (set cols);
            maxC = Max (set cols)
        in paint_cells g (List.product [minR..maxR] [minC..maxC]) a)"

fun paint_children :: "slot list list \<Rightarrow> GridChild list \<Rightarrow> js_error + slot list list" where
  "paint_children g [] = Inr g"
| "paint_children g (ch # chs) =
     (case paint_child g ch of Inl e \<Rightarrow> Inl e | Inr g' \<Rightarrow> paint_children g' chs)"

text \<open>\<open>xs.join(sep)\<close>\<close>

fun join :: "string \<Rightarrow> string list \<Rightarrow> string" where
  "join sep [] = []"
| "join sep [x] = x"
| "join sep (x # y # ys) = x @ sep @ join sep (y # ys)"

text \<open>\<open>row.map((c) => c ?? '.')\<close> skips a hole, and \<open>join\<close> writes nothing for it.\<close>

fun slot_text :: "slot \<Rightarrow> string" where
  "slot_text Hole = []"
| "slot_text Null = ''.''"
| "slot_text (Named a) = a"

text \<open>
  \<open>generateTemplateAreas\<close>. \<open>Array.from({ length: rowCount }, ...)\<close> makes no row for a
  count below 1; \<open>Array(columnCount)\<close> throws a RangeError for a negative count.
\<close>

definition generateTemplateAreas :: "int \<Rightarrow> int \<Rightarrow> GridChild list \<Rightarrow> js_error + string" where
  "generateTemplateAreas rc cc chs =
     (if 0 < rc \<and> cc < 0 then Inl RangeError
      else
        (case paint_children (replicate (nat rc) (replicate (nat cc) Null)) chs of
           Inl e \<Rightarrow> Inl e
         | Inr g \<Rightarrow>
             Inr (join [CHR 0x0A, CHR '' '', CHR '' '']
                    (map (\<lambda>rw. [CHR 0x22] @ join '' '' (map slot_text rw) @ [CHR 0x22]) g))))"

section \<open>The layout state engine (hooks/useGridState.ts)\<close>

definition MAX_HISTORY :: nat where
  "MAX_HISTORY = 50"

text \<open>\<open>xs.slice(-n)\<close> for a positive \<open>n\<close>: the last \<open>n\<close> elements.\<close>

definition slice_last :: "nat \<Rightarrow> 'a list \<Rightarrow> 'a list" where
  "slice_last n xs = drop (length xs - n) xs"

text \<open>
  \<open>nextChildName\<close>: the loop \<open>while (used.has(`child${n}`)) n++\<close> from \<open>n = 1\<close>.
\<close>

lemma finite_child_numbers: "finite {k. ''child'' @ show_nat k \<in> set used}"
proof -
  have "inj (\<lambda>k. ''child'' @ show_nat k)"
    by (auto simp: inj_on_def dest: show_nat_inj)
  then have "finite ((\<lambda>k. ''child'' @ show_nat k) -` set used)"
    by (intro finite_vimageI) simp_all
  then show ?thesis
    by (simp add: vimage_def)
qed

function nextChildName_from :: "string list \<Rightarrow> nat \<Rightarrow> nat" where
  "nextChildName_from used n =
     (if ''child'' @ show_nat n \<in> set used then nextChildName_from used (n + 1) else n)"
  by pat_completeness auto
termination
proof (relation "measure (\<lambda>(used, n). card {k. n \<le> k \<and> ''child'' @ show_nat k \<in> set used})")
  show "wf (measure (\<lambda>(used, n). card {k. n \<le> k \<and> ''child'' @ show_nat k \<in> set used}))"
    by simp
next
  fix used :: "string list" and n :: nat
  assume used: "''child'' @ show_nat n \<in> set used"
  have fin: "finite {k. n \<le> k \<and> ''child'' @ show_nat k \<in> set used}"
    by (rule finite_subset [OF _ finite_child_numbers [of used]]) auto
  have "n \<in> {k. n \<le> k \<and> ''child'' @ show_nat k \<in> set used}"
    and "n \<notin> {k. n + 1 \<le> k \<and> ''child'' @ show_nat k \<in> set used}"
    using used by simp_all
  moreover have "{k. n + 1 \<le> k \<and> ''child'' @ show_nat k \<in> set used}
          \<subseteq> {k. n \<le> k \<and> ''child'' @ show_nat k \<in> set used}"
    by auto
  ultimately have "{k. n + 1 \<le> k \<and> ''child'' @ show_nat k \<in> set used}
          \<subset> {k. n \<le> k \<and> ''child'' @ show_nat k \<in> set used}"
    by blast
  then have "card {k. n + 1 \<le> k \<and> ''child'' @ show_nat k \<in> set used}
          < card {k. n \<le> k \<and> ''child'' @ show_nat k \<in> set used}"
    using fin by (rule psubset_card_mono [rotated])
  then show "((used, n + 1), (used, n))
          \<in> measure (\<lambda>(used, n). card {k. n \<le> k \<and> ''child'' @ show_nat k \<in> set used})"
    by simp
qed

declare nextChildName_from.simps [simp del]

definition nextChildName :: "GridChild list \<Rightarrow> string" where
  "nextChildName cs = ''child'' @ show_nat (nextChildName_from (map name cs) 1)"

text \<open>
  The state of the hook: the layout, the undo stack (\<open>history\<close>, most recent last), the
  redo stack (\<open>historyForward\<close>, most recent first) and the transient selection state.
  Each operation is the state after the updates it queues have run.
\<close>

record hook =
  state :: LayoutState
  history :: "LayoutState list"
  historyForward :: "LayoutState list"
  selectedChildId :: "string option"
  pendingSelection :: "GridCell list"
  isSelecting :: bool
  useNamedAreas :: bool

definition useGridState :: "LayoutState option \<Rightarrow> hook" where
  "useGridState initialState =
     \<lparr>state = (case initialState of Some s \<Rightarrow> s | None \<Rightarrow> defaultLayoutState),
      history = [], historyForward = [], selectedChildId = None,
      pendingSelection = [], isSelecting = False, useNamedAreas = False\<rparr>"

definition pushHistory :: "LayoutState \<Rightarrow> hook \<Rightarrow> hook" where
  "pushHistory newState h =
     h\<lparr>history := slice_last MAX_HISTORY (history h @ [deepCloneState newState]),
       historyForward := []\<rparr>"

definition setActiveBreakpoint :: "BreakpointId \<Rightarrow> hook \<Rightarrow> hook" where
  "setActiveBreakpoint bp h =
     h\<lparr>state := (state h)\<lparr>activeBreakpoint := bp\<rparr>,
       selectedChildId := None,
       pendingSelection := []\<rparr>"

definition setSelectedChildId :: "string option \<Rightarrow> hook \<Rightarrow> hook" where
  "setSelectedChildId i h = h\<lparr>selectedChildId := i\<rparr>"

definition setUseNamedAreas :: "bool \<Rightarrow> hook \<Rightarrow> hook" where
  "setUseNamedAreas b h = h\<lparr>useNamedAreas := b\<rparr>"

definition setGridDefinition :: "(GridDefinition \<Rightarrow> GridDefinition) \<Rightarrow> hook \<Rightarrow> hook" where
  "setGridDefinition updater h =
     (let s = state h;
          bp = activeBreakpoint s;
          config = bp_get (breakpoints s) bp;
          nextGrid = updater (grid config);
          nextConfig = config\<lparr>grid := nextGrid\<rparr>
      in h\<lparr>state := s\<lparr>breakpoints := bp_set (breakpoints s) bp nextConfig\<rparr>\<rparr>)"

definition setRows :: "int \<Rightarrow> hook \<Rightarrow> hook" where
  "setRows delta h =
     (let s = state h;
          h1 = pushHistory s h;
          bp = activeBreakpoint s;
          config = bp_get (breakpoints s) bp;
          g = grid config;
          newCount = max 1 (min 20 (rowCount g + delta));
          sizes =
            (if newCount > rowCount g
             then rowSizes g @ replicate (nat (newCount - rowCount g)) (Fr 1)
             else take (nat newCount) (rowSizes g))
      in h1\<lparr>state :=
              s\<lparr>breakpoints :=
                  bp_set (breakpoints s) bp
                    (config\<lparr>grid := g\<lparr>rowCount := newCount, rowSizes := sizes\<rparr>\<rparr>)\<rparr>,
            historyForward := []\<rparr>)"

definition setColumns :: "int \<Rightarrow> hook \<Rightarrow> hook" where
  "setColumns delta h =
     (let s = state h;
          h1 = pushHistory s h;
          bp = activeBreakpoint s;
          config = bp_get (breakpoints s) bp;
          g = grid config;
          newCount = max 1 (min 20 (columnCount g + delta));
          sizes =
            (if newCount > columnCount g
             then columnSizes g @ replicate (nat (newCount - columnCount g)) (Fr 1)
             else take (nat newCount) (columnSizes g))
      in h1\<lparr>state :=
              s\<lparr>breakpoints :=
                  bp_set (breakpoints s) bp
                    (config\<lparr>grid := g\<lparr>columnCount := newCount, columnSizes := sizes\<rparr>\<rparr>)\<rparr>,
            historyForward := []\<rparr>)"

definition startSelection :: "GridCell \<Rightarrow> hook \<Rightarrow> hook" where
  "startSelection cell h = h\<lparr>isSelecting := True, pendingSelection := [cell]\<rparr>"

definition addToSelection :: "GridCell \<Rightarrow> hook \<Rightarrow> hook" where
  "addToSelection cell h =
     (let prev = pendingSelection h;
          key = cellKey cell
      in if list_ex (\<lambda>c. cellKey c = key) prev then h
         else h\<lparr>pendingSelection := prev @ [cell]\<rparr>)"

text \<open>
  The keys of the cells of the locked children, as the two nested \<open>forEach\<close> loops of
  \<open>endSelection\<close> collect them.
\<close>

definition lockedCells :: "GridChild list \<Rightarrow> string list" where
  "lockedCells chs =
     fold (\<lambda>ch S. if locked ch then fold (\<lambda>c. set_add (cellKey c)) (cells ch) S else S) chs []"

text \<open>
  \<open>endSelection\<close>; \<open>newId\<close> is the value \<open>generateId()\<close> returns (it is made of the clock
  and a random number).
\<close>

definition endSelection :: "string \<Rightarrow> hook \<Rightarrow> hook" where
  "endSelection newId h =
     (let h0 = h\<lparr>isSelecting := False\<rparr>;
          prev = pendingSelection h0
      in if length prev = 0 then h0\<lparr>pendingSelection := []\<rparr>
         else
           let expanded = expandToBoundingBox prev;
               s = state h0;
               h1 = pushHistory s h0;
               bp = activeBreakpoint s;
               config = bp_get (breakpoints s) bp;
               overlap = list_ex (\<lambda>c. cellKey c \<in> set (lockedCells (children config))) expanded;
               s' =
                 (if overlap then s
                  else
                    let nm = nextChildName (children config);
                        child = \<lparr>id_c = newId, name = nm, cells = expanded, locked = False,
                                 areaName = (if useNamedAreas h then Some nm else None),
                                 justifySelf = None, alignSelf = None\<rparr>
                    in s\<lparr>breakpoints :=
                           bp_set (breakpoints s) bp
                             (config\<lparr>children := children config @ [child]\<rparr>)\<rparr>)
           in h1\<lparr>state := s', historyForward := [], pendingSelection := []\<rparr>)"

definition clearSelection :: "hook \<Rightarrow> hook" where
  "clearSelection h = h\<lparr>isSelecting := False, pendingSelection := []\<rparr>"

definition deleteChild :: "string \<Rightarrow> hook \<Rightarrow> hook" where
  "deleteChild i h =
     (let s = state h;
          h1 = pushHistory s h;
          bp = activeBreakpoint s;
          config = bp_get (breakpoints s) bp;
          chs = filter (\<lambda>c. id_c c \<noteq> i) (children config)
      in h1\<lparr>state := s\<lparr>breakpoints := bp_set (breakpoints s) bp (config\<lparr>children := chs\<rparr>)\<rparr>,
            historyForward := [],
            selectedChildId := (if selectedChildId h = Some i then None else selectedChildId h)\<rparr>)"

definition updateChild :: "string \<Rightarrow> (GridChild \<Rightarrow> GridChild) \<Rightarrow> hook \<Rightarrow> hook" where
  "updateChild i updater h =
     (let s = state h;
          bp = activeBreakpoint s;
          config = bp_get (breakpoints s) bp;
          chs = map (\<lambda>c. if id_c c = i then updater c else c) (children config)
      in h\<lparr>state := s\<lparr>breakpoints := bp_set (breakpoints s) bp (config\<lparr>children := chs\<rparr>)\<rparr>\<rparr>)"

definition setChildLock :: "string \<Rightarrow> bool \<Rightarrow> hook \<Rightarrow> hook" where
  "setChildLock i l h = updateChild i (\<lambda>c. c\<lparr>locked := l\<rparr>) h"

definition setChildName :: "string \<Rightarrow> string \<Rightarrow> hook \<Rightarrow> hook" where
  "setChildName i nm h =
     updateChild i
       (\<lambda>c. c\<lparr>name := (if trim nm \<noteq> [] then trim nm else name c),
               areaName :=
                 (if useNamedAreas h
                  then Some (if trim nm \<noteq> [] then trim nm else name c)
                  else None)\<rparr>) h"

definition undo :: "hook \<Rightarrow> hook" where
  "undo h =
     (if length (history h) = 0 then h
      else
        let prev = last (history h)
        in h\<lparr>history := butlast (history h),
             historyForward := deepCloneState (state h) # historyForward h,
             state := deepCloneState prev,
             selectedChildId := None\<rparr>)"

definition redo :: "hook \<Rightarrow> hook" where
  "redo h =
     (case historyForward h of
        [] \<Rightarrow> h
      | next # f \<Rightarrow>
          h\<lparr>historyForward := f,
            history := history h @ [deepCloneState (state h)],
            state := deepCloneState next\<rparr>)"

definition canUndo :: "hook \<Rightarrow> bool" where
  "canUndo h = (length (history h) > 0)"

definition canRedo :: "hook \<Rightarrow> bool" where
  "canRedo h = (length (historyForward h) > 0)"

text \<open>
  \<open>exportLayout\<close> and \<open>importLayout\<close>. \<open>JSON.stringify\<close> and \<open>JSON.parse\<close> belong to the
  platform, not to this program: they are the parameters \<open>stringify\<close> (the text of a JSON
  value) and \<open>parse\<close> (the value of a text, \<open>None\<close> when \<open>JSON.parse\<close> throws a
  SyntaxError). \<open>now\<close> is the text of the clock, \<open>new Date().toISOString()\<close>, and
  \<open>exportData\<close> is the object \<open>data\<close> that \<open>exportLayout\<close> builds.
\<close>

definition exportData :: "string \<Rightarrow> hook \<Rightarrow> json" where
  "exportData now h =
     JObj [(''version'', JNum 1),
           (''layout'', layout_json (deepCloneState (state h))),
           (''exportedAt'', JStr now)]"

definition exportLayout :: "(json \<Rightarrow> string) \<Rightarrow> string \<Rightarrow> hook \<Rightarrow> string" where
  "exportLayout stringify now h = stringify (exportData now h)"

text \<open>
  What \<open>importLayout\<close> does: it returns false and leaves the hook alone (\<open>Rejected\<close>), or
  it returns true and stores the layout it was given. A thrown SyntaxError (the text is
  not JSON) or TypeError (\<open>data\<close> is null) is caught and gives false. The stored value is
  the copy \<open>deepCloneState\<close> makes of what the text holds under \<open>layout\<close>, which for a
  parsed value is that value: \<open>Accepted\<close> when it is a \<open>LayoutState\<close>, and \<open>AcceptedRaw\<close>,
  with the value itself, when it is not (the hook then carries the other, reset, fields).
\<close>

datatype import_result = Rejected hook | Accepted hook | AcceptedRaw json hook

fun returned :: "import_result \<Rightarrow> bool" where
  "returned (Rejected h) = False"
| "returned (Accepted h) = True"
| "returned (AcceptedRaw j h) = True"

definition importLayout :: "(string \<Rightarrow> json option) \<Rightarrow> string \<Rightarrow> hook \<Rightarrow> import_result" where
  "importLayout parse text h =
     (case parse text of
        None \<Rightarrow> Rejected h
      | Some JNull \<Rightarrow> Rejected h
      | Some data \<Rightarrow>
          let layout = getProp data ''layout'' in
          if getProp data ''version'' \<noteq> Some (JNum 1)
             \<or> \<not> truthy (case layout of None \<Rightarrow> None | Some JNull \<Rightarrow> None
                          | Some l \<Rightarrow> getProp l ''breakpoints'')
          then Rejected h
          else
            (case layout of
               None \<Rightarrow> Rejected h
             | Some l \<Rightarrow>
                 let bp = getProp l ''activeBreakpoint'' in
                 if bp \<notin> set [Some (JStr ''desktop''), Some (JStr ''tablet''), Some (JStr ''mobile'')]
                 then Rejected h
                 else
                   let h' = h\<lparr>history := [], historyForward := [], selectedChildId := None\<rparr>
                   in (case asLayoutState l of
                         Some s \<Rightarrow> Accepted (h'\<lparr>state := s\<rparr>)
                       | None \<Rightarrow> AcceptedRaw l h')))"

text \<open>\<open>currentConfig\<close>: the configuration of the active breakpoint.\<close>

definition currentConfig :: "hook \<Rightarrow> BreakpointConfig" where
  "currentConfig h = bp_get (breakpoints (state h)) (activeBreakpoint (state h))"

text \<open>
  The hooks the program can be in: the initial one, and every hook an operation of the
  engine makes of one of them.
\<close>

inductive reachable :: "hook \<Rightarrow> bool" where
  r_init: "reachable (useGridState initialState)"
| r_setActiveBreakpoint: "reachable h \<Longrightarrow> reachable (setActiveBreakpoint bp h)"
| r_setSelectedChildId: "reachable h \<Longrightarrow> reachable (setSelectedChildId i h)"
| r_setUseNamedAreas: "reachable h \<Longrightarrow> reachable (setUseNamedAreas b h)"
| r_setGridDefinition: "reachable h \<Longrightarrow> reachable (setGridDefinition updater h)"
| r_setRows: "reachable h \<Longrightarrow> reachable (setRows delta h)"
| r_setColumns: "reachable h \<Longrightarrow> reachable (setColumns delta h)"
| r_startSelection: "reachable h \<Longrightarrow> reachable (startSelection cell h)"
| r_addToSelection: "reachable h \<Longrightarrow> reachable (addToSelection cell h)"
| r_endSelection: "reachable h \<Longrightarrow> reachable (endSelection newId h)"
| r_clearSelection: "reachable h \<Longrightarrow> reachable (clearSelection h)"
| r_deleteChild: "reachable h \<Longrightarrow> reachable (deleteChild i h)"
| r_updateChild: "reachable h \<Longrightarrow> reachable (updateChild i f h)"
| r_undo: "reachable h \<Longrightarrow> reachable (undo h)"
| r_redo: "reachable h \<Longrightarrow> reachable (redo h)"
| r_importLayout: "reachable h \<Longrightarrow> importLayout parse text h = Accepted h' \<Longrightarrow> reachable h'"

text \<open>The operations of the engine that push a snapshot onto the undo stack.\<close>

datatype mutation =
    SetRows int
  | SetColumns int
  | EndSelection string
  | DeleteChild string

fun apply_mutation :: "mutation \<Rightarrow> hook \<Rightarrow> hook" where
  "apply_mutation (SetRows delta) h = setRows delta h"
| "apply_mutation (SetColumns delta) h = setColumns delta h"
| "apply_mutation (EndSelection newId) h = endSelection newId h"
| "apply_mutation (DeleteChild i) h = deleteChild i h"

text \<open>
  \<open>endSelection\<close> pushes only when the pending selection is not empty; the other three
  always push.
\<close>

fun pushes :: "mutation \<Rightarrow> hook \<Rightarrow> bool" where
  "pushes (EndSelection newId) h = (pendingSelection h \<noteq> [])"
| "pushes m h = True"

section \<open>Properties: the JSON copy of a state\<close>

lemma those_map_roundtrip:
  assumes "\<And>x. as (enc x) = Some x"
  shows "those (map as (map enc xs)) = Some xs"
  using assms by (induction xs) simp_all

lemma asList_roundtrip:
  assumes "\<And>x. as (enc x) = Some x"
  shows "asList as (JArr (map enc xs)) = Some xs"
  using those_map_roundtrip [of as enc xs] assms by (simp add: asList_def)

lemma asCell_roundtrip: "asCell (cell_json c) = Some c"
  by (simp add: asCell_def cell_json_def field_def getProp_def)

lemma asTrackSize_roundtrip: "asTrackSize (track_json t) = Some t"
  by (cases t) (simp_all add: asTrackSize_def field_def getProp_def)

lemma asPlaceItems_roundtrip: "asPlaceItems (placeItems_json p) = Some p"
  by (cases p) (simp_all add: asPlaceItems_def)

lemma asSelfAlign_roundtrip: "asSelfAlign (selfAlign_json a) = Some a"
  by (cases a) (simp_all add: asSelfAlign_def)

lemma asBreakpointId_roundtrip: "asBreakpointId (breakpointId_json b) = Some b"
  by (cases b) (simp_all add: asBreakpointId_def)

lemma asGridDefinition_roundtrip: "asGridDefinition (grid_json g) = Some g"
  by (simp add: asGridDefinition_def grid_json_def field_def getProp_def
      asList_roundtrip [of asTrackSize track_json] asTrackSize_roundtrip asPlaceItems_roundtrip)

lemma asGridChild_roundtrip: "asGridChild (child_json c) = Some c"
proof -
  have "areaName c = None \<or> (\<exists>a. areaName c = Some a)"
    and "justifySelf c = None \<or> (\<exists>a. justifySelf c = Some a)"
    and "alignSelf c = None \<or> (\<exists>a. alignSelf c = Some a)"
    by auto
  then show ?thesis
    by (elim disjE exE)
      (simp_all add: asGridChild_def child_json_def field_def field_opt_def getProp_def
        asList_roundtrip [of asCell cell_json] asCell_roundtrip asSelfAlign_roundtrip)
qed

lemma asBreakpointConfig_roundtrip: "asBreakpointConfig (config_json c) = Some c"
  by (simp add: asBreakpointConfig_def config_json_def field_def getProp_def
      asList_roundtrip [of asGridChild child_json] asGridChild_roundtrip
      asGridDefinition_roundtrip)

lemma asBreakpoints_roundtrip: "asBreakpoints (breakpoints_json b) = Some b"
  by (simp add: asBreakpoints_def breakpoints_json_def field_def getProp_def
      asBreakpointConfig_roundtrip)

lemma asLayoutState_roundtrip: "asLayoutState (layout_json s) = Some s"
  by (simp add: asLayoutState_def layout_json_def field_def getProp_def
      asBreakpoints_roundtrip asBreakpointId_roundtrip)

lemma deepCloneState_same: "deepCloneState s = s"
  by (simp add: deepCloneState_def asLayoutState_roundtrip)

section \<open>Properties: selection geometry\<close>


















lemma has_cellKey: "has S r c \<longleftrightarrow> cellKey \<lparr>row = r, column = c\<rparr> \<in> set S"
  by (simp add: has_def cellKey_def)


















section \<open>Properties: code generation\<close>

lemma replace_spaces_nonempty: "s \<noteq> [] \<Longrightarrow> replace_spaces s \<noteq> []"
  by (cases s) simp_all

lemma toClassName_nonempty: "toClassName nm \<noteq> []"
  by (simp add: toClassName_def Let_def)


text \<open>
  C8, what the code does: \<open>toClassName\<close> never returns the empty text (a blank name becomes
  \<open>child\<close>), so the test \<open>if (!areaName) continue\<close> never skips a child. Here a 2 by 2
  grid has one child on cell (0,0) with no \<open>areaName\<close> and a name that is a single space: its
  cell is written as \<open>child\<close>, not as \<open>.\<close>; and the same for an \<open>areaName\<close> that is the
  empty text.
\<close>

theorem generateTemplateAreas_blank_name_painted:
  "toClassName '' '' = ''child''
   \<and> toClassName '''' = ''child''
   \<and> (\<forall>nm. toClassName nm \<noteq> [])
   \<and> generateTemplateAreas 2 2
        [\<lparr>id_c = ''a'', name = '' '', cells = [\<lparr>row = 0, column = 0\<rparr>], locked = False,
          areaName = None, justifySelf = None, alignSelf = None\<rparr>]
       = Inr ([CHR 0x22] @ ''child .'' @ [CHR 0x22, CHR 0x0A] @ ''  '' @ [CHR 0x22] @ ''. .'' @ [CHR 0x22])
   \<and> generateTemplateAreas 2 2
        [\<lparr>id_c = ''a'', name = ''hero'', cells = [\<lparr>row = 0, column = 0\<rparr>], locked = False,
          areaName = Some '''', justifySelf = None, alignSelf = None\<rparr>]
       = Inr ([CHR 0x22] @ ''child .'' @ [CHR 0x22, CHR 0x0A] @ ''  '' @ [CHR 0x22] @ ''. .'' @ [CHR 0x22])"
proof -
  have 1: "toClassName '' '' = ''child''" "toClassName '''' = ''child''"
    by (simp_all add: toClassName_def trim_def is_space_def)
  have 2: "\<forall>nm. toClassName nm \<noteq> []"
    by (simp add: toClassName_nonempty)
  have 3: "generateTemplateAreas 2 2
        [\<lparr>id_c = ''a'', name = '' '', cells = [\<lparr>row = 0, column = 0\<rparr>], locked = False,
          areaName = None, justifySelf = None, alignSelf = None\<rparr>]
       = Inr ([CHR 0x22] @ ''child .'' @ [CHR 0x22, CHR 0x0A] @ ''  '' @ [CHR 0x22] @ ''. .'' @ [CHR 0x22])"
    by (simp add: generateTemplateAreas_def paint_child_def 1 paint_cell_def set_slot_def
        numeral_2_eq_2)
  have 4: "generateTemplateAreas 2 2
        [\<lparr>id_c = ''a'', name = ''hero'', cells = [\<lparr>row = 0, column = 0\<rparr>], locked = False,
          areaName = Some '''', justifySelf = None, alignSelf = None\<rparr>]
       = Inr ([CHR 0x22] @ ''child .'' @ [CHR 0x22, CHR 0x0A] @ ''  '' @ [CHR 0x22] @ ''. .'' @ [CHR 0x22])"
    by (simp add: generateTemplateAreas_def paint_child_def 1 paint_cell_def set_slot_def
        numeral_2_eq_2)
  from 1 2 3 4 show ?thesis
    by blast
qed

section \<open>Properties: the layout state engine\<close>

lemma bp_get_bp_set: "bp_get (bp_set b bp c) bp = c"
  by (cases bp) simp_all

lemma length_slice_last: "length (slice_last n xs) \<le> n"
  by (simp add: slice_last_def)

lemma slice_last_short: "length xs \<le> n \<Longrightarrow> slice_last n xs = xs"
  by (simp add: slice_last_def)

lemma slice_last_snoc_full: "length xs = n \<Longrightarrow> 0 < n \<Longrightarrow> slice_last n (xs @ [x]) = tl xs @ [x]"
  by (cases xs) (simp_all add: slice_last_def)

lemma history_pushHistory:
  "history (pushHistory s h) = slice_last MAX_HISTORY (history h @ [s])"
  by (simp add: pushHistory_def deepCloneState_same)

lemma historyForward_pushHistory: "historyForward (pushHistory s h) = []"
  by (simp add: pushHistory_def)

lemma history_setRows: "history (setRows d h) = slice_last MAX_HISTORY (history h @ [state h])"
  by (simp add: setRows_def Let_def history_pushHistory)

lemma history_setColumns: "history (setColumns d h) = slice_last MAX_HISTORY (history h @ [state h])"
  by (simp add: setColumns_def Let_def history_pushHistory)

lemma history_deleteChild: "history (deleteChild i h) = slice_last MAX_HISTORY (history h @ [state h])"
  by (simp add: deleteChild_def Let_def history_pushHistory)

lemma history_endSelection:
  "history (endSelection i h) =
     (if pendingSelection h = [] then history h
      else slice_last MAX_HISTORY (history h @ [state h]))"
  by (simp add: endSelection_def Let_def history_pushHistory)

lemma historyForward_setRows: "historyForward (setRows d h) = []"
  by (simp add: setRows_def Let_def)

lemma historyForward_setColumns: "historyForward (setColumns d h) = []"
  by (simp add: setColumns_def Let_def)

lemma historyForward_deleteChild: "historyForward (deleteChild i h) = []"
  by (simp add: deleteChild_def Let_def)

lemma historyForward_endSelection:
  "historyForward (endSelection i h) = (if pendingSelection h = [] then historyForward h else [])"
  by (simp add: endSelection_def Let_def)

lemma importLayout_Accepted_stacks:
  "importLayout parse text h = Accepted h' \<Longrightarrow> history h' = [] \<and> historyForward h' = []"
  by (auto simp: importLayout_def Let_def split: option.splits json.splits if_splits)

lemma reachable_stacks:
  "reachable h \<Longrightarrow> length (history h) + length (historyForward h) \<le> MAX_HISTORY"
proof (induction rule: reachable.induct)
  case (r_init initialState)
  then show ?case by (simp add: useGridState_def)
next
  case (r_setActiveBreakpoint h bp)
  then show ?case by (simp add: setActiveBreakpoint_def)
next
  case (r_setSelectedChildId h i)
  then show ?case by (simp add: setSelectedChildId_def)
next
  case (r_setUseNamedAreas h b)
  then show ?case by (simp add: setUseNamedAreas_def)
next
  case (r_setGridDefinition h updater)
  then show ?case by (simp add: setGridDefinition_def Let_def)
next
  case (r_setRows h delta)
  then show ?case by (simp add: history_setRows historyForward_setRows length_slice_last)
next
  case (r_setColumns h delta)
  then show ?case by (simp add: history_setColumns historyForward_setColumns length_slice_last)
next
  case (r_startSelection h cell)
  then show ?case by (simp add: startSelection_def)
next
  case (r_addToSelection h cell)
  then show ?case by (simp add: addToSelection_def Let_def)
next
  case (r_endSelection h newId)
  then show ?case by (simp add: history_endSelection historyForward_endSelection length_slice_last)
next
  case (r_clearSelection h)
  then show ?case by (simp add: clearSelection_def)
next
  case (r_deleteChild h i)
  then show ?case by (simp add: history_deleteChild historyForward_deleteChild length_slice_last)
next
  case (r_updateChild h i f)
  then show ?case by (simp add: updateChild_def Let_def)
next
  case (r_undo h)
  then show ?case by (cases "history h" rule: rev_cases) (simp_all add: undo_def Let_def)
next
  case (r_redo h)
  then show ?case by (cases "historyForward h") (simp_all add: redo_def)
next
  case (r_importLayout h parse input h')
  then show ?case by (simp add: importLayout_Accepted_stacks)
qed

text \<open>
  C10: \<open>endSelection\<close> with an empty pending selection changes nothing but the
  selection-in-progress flag: the layout state, the undo stack and the redo stack stay as
  they are, no child is created and no snapshot is pushed.
\<close>

theorem endSelection_empty_pending:
  assumes "pendingSelection h = []"
  shows "endSelection newId h = h\<lparr>isSelecting := False\<rparr>"
  using assms by (simp add: endSelection_def)

theorem endSelection_empty_pending_witness:
  "pendingSelection (setRows 1 ((useGridState None)\<lparr>isSelecting := True\<rparr>)) = []
   \<and> endSelection ''id_1'' (setRows 1 ((useGridState None)\<lparr>isSelecting := True\<rparr>))
       = (setRows 1 ((useGridState None)\<lparr>isSelecting := True\<rparr>))\<lparr>isSelecting := False\<rparr>"
proof -
  have p: "pendingSelection (setRows 1 ((useGridState None)\<lparr>isSelecting := True\<rparr>)) = []"
    by (simp add: setRows_def Let_def pushHistory_def useGridState_def)
  show ?thesis
    using p endSelection_empty_pending [OF p, of "''id_1''"] by simp
qed

text \<open>
  C9: the undo stack never holds more than 50 snapshots. It holds in every hook the
  program can reach; \<open>pushHistory\<close>, and with it every operation that pushes history
  (\<open>setRows\<close>, \<open>setColumns\<close>, \<open>deleteChild\<close>, a committing \<open>endSelection\<close>), leaves at most 50
  snapshots whatever the stack was; and a push onto a stack of 50 drops the oldest
  snapshot (the first) and keeps the others in order, the new one last.
\<close>

theorem undo_stack_bounded:
  "MAX_HISTORY = 50
   \<and> (reachable h \<longrightarrow> length (history h) \<le> MAX_HISTORY)
   \<and> length (history (pushHistory s g)) \<le> MAX_HISTORY
   \<and> length (history (setRows d g)) \<le> MAX_HISTORY
   \<and> length (history (setColumns d g)) \<le> MAX_HISTORY
   \<and> length (history (deleteChild i g)) \<le> MAX_HISTORY
   \<and> (length (history g) \<le> MAX_HISTORY \<longrightarrow> length (history (endSelection i g)) \<le> MAX_HISTORY)
   \<and> (length (history g) < MAX_HISTORY \<longrightarrow> history (pushHistory s g) = history g @ [s])
   \<and> (length (history g) = MAX_HISTORY \<longrightarrow> history (pushHistory s g) = tl (history g) @ [s])"
proof -
  have m: "MAX_HISTORY = 50"
    by (simp add: MAX_HISTORY_def)
  have r: "reachable h \<longrightarrow> length (history h) \<le> MAX_HISTORY"
    using reachable_stacks [of h] by auto
  have p: "length (history (pushHistory s g)) \<le> MAX_HISTORY" for s
    by (simp add: history_pushHistory length_slice_last)
  have e: "length (history g) \<le> MAX_HISTORY \<longrightarrow> length (history (endSelection i g)) \<le> MAX_HISTORY"
    by (simp add: history_endSelection length_slice_last)
  have lt: "length (history g) < MAX_HISTORY \<longrightarrow> history (pushHistory s g) = history g @ [s]"
    by (simp add: history_pushHistory slice_last_short)
  have eq: "length (history g) = MAX_HISTORY \<longrightarrow> history (pushHistory s g) = tl (history g) @ [s]"
    by (simp add: history_pushHistory m slice_last_snoc_full)
  have "length (history (setRows d g)) \<le> MAX_HISTORY"
    "length (history (setColumns d g)) \<le> MAX_HISTORY"
    "length (history (deleteChild i g)) \<le> MAX_HISTORY"
    by (simp_all add: history_setRows history_setColumns history_deleteChild length_slice_last)
  with m r p e lt eq show ?thesis
    by blast
qed

theorem undo_stack_bounded_witness:
  "reachable (setRows 1 (useGridState None))
   \<and> length (history (setRows 1 (useGridState None))) \<le> 50
   \<and> length (history (useGridState None)) < 50
   \<and> history (pushHistory defaultLayoutState (useGridState None)) = [defaultLayoutState]
   \<and> length (history ((useGridState None)\<lparr>history := replicate 50 defaultLayoutState\<rparr>)) = 50
   \<and> length (history (endSelection ''id_1''
         ((useGridState None)\<lparr>history := replicate 50 defaultLayoutState,
            pendingSelection := [\<lparr>row = 0, column = 0\<rparr>]\<rparr>))) \<le> 50
   \<and> history (pushHistory (defaultLayoutState\<lparr>activeBreakpoint := Mobile\<rparr>)
         ((useGridState None)\<lparr>history := replicate 50 defaultLayoutState\<rparr>))
       = tl (replicate 50 defaultLayoutState) @ [defaultLayoutState\<lparr>activeBreakpoint := Mobile\<rparr>]"
proof -
  let ?h = "setRows 1 (useGridState None)"
  let ?g = "(useGridState None)\<lparr>history := replicate 50 defaultLayoutState\<rparr>"
  let ?g' = "(useGridState None)\<lparr>history := replicate 50 defaultLayoutState,
            pendingSelection := [\<lparr>row = 0, column = 0\<rparr>]\<rparr>"
  let ?s = "defaultLayoutState\<lparr>activeBreakpoint := Mobile\<rparr>"
  have r: "reachable ?h"
    by (intro reachable.intros)
  have e: "history (useGridState None) = []"
    by (simp add: useGridState_def)
  have m: "MAX_HISTORY = 50"
    by (simp add: MAX_HISTORY_def)
  have 1: "length (history ?h) \<le> 50"
    using undo_stack_bounded [where h = ?h] r m by metis
  have "length (history (useGridState None)) < MAX_HISTORY
      \<longrightarrow> history (pushHistory defaultLayoutState (useGridState None))
        = history (useGridState None) @ [defaultLayoutState]"
    using undo_stack_bounded [where g = "useGridState None" and s = defaultLayoutState]
    by blast
  then have 2: "history (pushHistory defaultLayoutState (useGridState None)) = [defaultLayoutState]"
    by (simp add: e m)
  have "length (history ?g) = MAX_HISTORY
      \<longrightarrow> history (pushHistory ?s ?g) = tl (history ?g) @ [?s]"
    using undo_stack_bounded [where g = ?g and s = ?s] by blast
  then have 3: "history (pushHistory ?s ?g) = tl (replicate 50 defaultLayoutState) @ [?s]"
    by (simp add: m)
  have "length (history ?g') \<le> MAX_HISTORY
      \<longrightarrow> length (history (endSelection ''id_1'' ?g')) \<le> MAX_HISTORY"
    using undo_stack_bounded [where g = ?g' and i = "''id_1''"] by blast
  then have 4: "length (history (endSelection ''id_1'' ?g')) \<le> 50"
    by (simp add: m)
  have 5: "length (history ?g) = 50" "length (history (useGridState None)) < 50"
    by (simp_all add: e)
  show ?thesis
    using r 1 2 3 4 5 by blast
qed

text \<open>
  C1, what the code does: \<open>endSelection\<close> calls \<open>pushHistory\<close> before it looks for an
  overlap with a locked child. Here the desktop breakpoint holds one locked child on cell
  (0,0), the undo stack is empty and the redo stack holds one snapshot; the pending
  selection is that same cell. The commit is rejected (no child is added, the layout state
  is unchanged), but the undo stack has grown from 0 to 1 snapshots and the redo stack has
  been emptied.
\<close>

theorem endSelection_locked_overlap_pushes_history:
  "(let locked_child = \<lparr>id_c = ''a'', name = ''child1'', cells = [\<lparr>row = 0, column = 0\<rparr>],
                         locked = True, areaName = None, justifySelf = None, alignSelf = None\<rparr>;
        s = defaultLayoutState\<lparr>breakpoints := bp_set (breakpoints defaultLayoutState) Desktop
              ((defaultBreakpointConfig 3 4)\<lparr>children := [locked_child]\<rparr>)\<rparr>;
        h = (useGridState (Some s))\<lparr>historyForward := [defaultLayoutState],
              pendingSelection := [\<lparr>row = 0, column = 0\<rparr>], isSelecting := True\<rparr>;
        h' = endSelection ''b'' h
    in state h' = state h
       \<and> children (currentConfig h') = [locked_child]
       \<and> history h = []
       \<and> history h' = [s]
       \<and> length (history h') = length (history h) + 1
       \<and> historyForward h = [defaultLayoutState]
       \<and> historyForward h' = [])"
  by (simp add: Let_def endSelection_def useGridState_def pushHistory_def deepCloneState_same
      slice_last_def MAX_HISTORY_def expandToBoundingBox_def lockedCells_def set_add_def currentConfig_def
      defaultLayoutState_def)

lemma grid_setRows:
  "grid (currentConfig (setRows delta h)) =
     (let g = grid (currentConfig h);
          n = max 1 (min 20 (rowCount g + delta))
      in g\<lparr>rowCount := n,
           rowSizes := (if n > rowCount g
                        then rowSizes g @ replicate (nat (n - rowCount g)) (Fr 1)
                        else take (nat n) (rowSizes g))\<rparr>)"
  by (simp add: setRows_def currentConfig_def Let_def pushHistory_def bp_get_bp_set)

lemma grid_setColumns:
  "grid (currentConfig (setColumns delta h)) =
     (let g = grid (currentConfig h);
          n = max 1 (min 20 (columnCount g + delta))
      in g\<lparr>columnCount := n,
           columnSizes := (if n > columnCount g
                           then columnSizes g @ replicate (nat (n - columnCount g)) (Fr 1)
                           else take (nat n) (columnSizes g))\<rparr>)"
  by (simp add: setColumns_def currentConfig_def Let_def pushHistory_def bp_get_bp_set)

text \<open>
  C6: \<open>resizeRows\<close> (\<open>setRows\<close>) and \<open>resizeColumns\<close> (\<open>setColumns\<close>), for every hook and
  every integer delta: the new count is the old count plus delta, clamped to [1,20]; when
  the count grows, the size list is the old one with that many \<open>fr(1)\<close> tracks appended;
  when it does not grow, the size list is cut to the new count. From 20 rows, +1 leaves 20
  rows; a delta that would bring the count to 0 or below leaves 1 row.
\<close>

theorem resize_clamps:
  "(let g = grid (currentConfig h); g' = grid (currentConfig (setRows delta h)) in
      rowCount g' = max 1 (min 20 (rowCount g + delta))
      \<and> 1 \<le> rowCount g' \<and> rowCount g' \<le> 20
      \<and> (rowCount g < rowCount g' \<longrightarrow>
            rowSizes g' = rowSizes g @ replicate (nat (rowCount g' - rowCount g)) (Fr 1))
      \<and> (rowCount g' \<le> rowCount g \<longrightarrow> rowSizes g' = take (nat (rowCount g')) (rowSizes g))
      \<and> (rowCount g = 20 \<and> delta = 1 \<longrightarrow> rowCount g' = 20)
      \<and> (rowCount g + delta \<le> 0 \<longrightarrow> rowCount g' = 1))
   \<and> (let g = grid (currentConfig h); g' = grid (currentConfig (setColumns delta h)) in
      columnCount g' = max 1 (min 20 (columnCount g + delta))
      \<and> 1 \<le> columnCount g' \<and> columnCount g' \<le> 20
      \<and> (columnCount g < columnCount g' \<longrightarrow>
            columnSizes g' = columnSizes g @ replicate (nat (columnCount g' - columnCount g)) (Fr 1))
      \<and> (columnCount g' \<le> columnCount g \<longrightarrow>
            columnSizes g' = take (nat (columnCount g')) (columnSizes g))
      \<and> (columnCount g = 20 \<and> delta = 1 \<longrightarrow> columnCount g' = 20)
      \<and> (columnCount g + delta \<le> 0 \<longrightarrow> columnCount g' = 1))"
proof -
  have rows: "let g = grid (currentConfig h); g' = grid (currentConfig (setRows delta h)) in
      rowCount g' = max 1 (min 20 (rowCount g + delta))
      \<and> 1 \<le> rowCount g' \<and> rowCount g' \<le> 20
      \<and> (rowCount g < rowCount g' \<longrightarrow>
            rowSizes g' = rowSizes g @ replicate (nat (rowCount g' - rowCount g)) (Fr 1))
      \<and> (rowCount g' \<le> rowCount g \<longrightarrow> rowSizes g' = take (nat (rowCount g')) (rowSizes g))
      \<and> (rowCount g = 20 \<and> delta = 1 \<longrightarrow> rowCount g' = 20)
      \<and> (rowCount g + delta \<le> 0 \<longrightarrow> rowCount g' = 1)"
    unfolding grid_setRows by (auto simp add: Let_def)
  have cols: "let g = grid (currentConfig h); g' = grid (currentConfig (setColumns delta h)) in
      columnCount g' = max 1 (min 20 (columnCount g + delta))
      \<and> 1 \<le> columnCount g' \<and> columnCount g' \<le> 20
      \<and> (columnCount g < columnCount g' \<longrightarrow>
            columnSizes g' = columnSizes g @ replicate (nat (columnCount g' - columnCount g)) (Fr 1))
      \<and> (columnCount g' \<le> columnCount g \<longrightarrow>
            columnSizes g' = take (nat (columnCount g')) (columnSizes g))
      \<and> (columnCount g = 20 \<and> delta = 1 \<longrightarrow> columnCount g' = 20)
      \<and> (columnCount g + delta \<le> 0 \<longrightarrow> columnCount g' = 1)"
    unfolding grid_setColumns by (auto simp add: Let_def)
  from rows cols show ?thesis
    by (rule conjI)
qed

theorem resize_clamps_witness:
  "rowCount (grid (currentConfig (useGridState None))) = 3
   \<and> rowCount (grid (currentConfig (setRows 17 (useGridState None)))) = 20
   \<and> rowSizes (grid (currentConfig (setRows 17 (useGridState None)))) = replicate 20 (Fr 1)
   \<and> rowCount (grid (currentConfig (setRows 1 (setRows 17 (useGridState None))))) = 20
   \<and> rowSizes (grid (currentConfig (setRows 1 (setRows 17 (useGridState None))))) = replicate 20 (Fr 1)
   \<and> rowCount (grid (currentConfig (setRows (- 3) (useGridState None)))) = 1
   \<and> rowSizes (grid (currentConfig (setRows (- 3) (useGridState None)))) = [Fr 1]
   \<and> columnCount (grid (currentConfig (useGridState None))) = 4
   \<and> columnCount (grid (currentConfig (setColumns 2 (useGridState None)))) = 6
   \<and> columnSizes (grid (currentConfig (setColumns 2 (useGridState None)))) = replicate 6 (Fr 1)
   \<and> columnCount (grid (currentConfig (setColumns (- 9) (useGridState None)))) = 1
   \<and> columnSizes (grid (currentConfig (setColumns (- 9) (useGridState None)))) = [Fr 1]"
proof -
  let ?h = "useGridState None"
  have g0: "grid (currentConfig ?h) = defaultGridDefinition 3 4"
    by (simp add: useGridState_def currentConfig_def defaultLayoutState_def
        defaultBreakpointConfig_def)
  have r0: "rowCount (grid (currentConfig ?h)) = 3"
    "rowSizes (grid (currentConfig ?h)) = replicate 3 (Fr 1)"
    "columnCount (grid (currentConfig ?h)) = 4"
    "columnSizes (grid (currentConfig ?h)) = replicate 4 (Fr 1)"
    by (simp_all add: g0 defaultGridDefinition_def defaultTrackSize_def)
  have a: "rowCount (grid (currentConfig (setRows 17 ?h))) = 20
      \<and> rowSizes (grid (currentConfig (setRows 17 ?h))) = replicate 3 (Fr 1) @ replicate 17 (Fr 1)"
    using resize_clamps [of ?h 17] by (simp add: Let_def r0)
  then have a': "rowSizes (grid (currentConfig (setRows 17 ?h))) = replicate 20 (Fr 1)"
    by (simp flip: replicate_add)
  have b: "rowCount (grid (currentConfig (setRows 1 (setRows 17 ?h)))) = 20
      \<and> rowSizes (grid (currentConfig (setRows 1 (setRows 17 ?h)))) = replicate 20 (Fr 1)"
    using resize_clamps [of "setRows 17 ?h" 1] a a' by (simp add: Let_def)
  have c: "rowCount (grid (currentConfig (setRows (- 3) ?h))) = 1
      \<and> rowSizes (grid (currentConfig (setRows (- 3) ?h))) = [Fr 1]"
    using resize_clamps [of ?h "- 3"] by (simp add: Let_def r0)
  have d: "columnCount (grid (currentConfig (setColumns 2 ?h))) = 6
      \<and> columnSizes (grid (currentConfig (setColumns 2 ?h))) = replicate 4 (Fr 1) @ replicate 2 (Fr 1)"
    using resize_clamps [of ?h 2] by (simp add: Let_def r0)
  then have d': "columnSizes (grid (currentConfig (setColumns 2 ?h))) = replicate 6 (Fr 1)"
    by (simp flip: replicate_add)
  have e: "columnCount (grid (currentConfig (setColumns (- 9) ?h))) = 1
      \<and> columnSizes (grid (currentConfig (setColumns (- 9) ?h))) = [Fr 1]"
    using resize_clamps [of ?h "- 9"] by (simp add: Let_def r0)
  show ?thesis
    using r0 a a' b c d d' e by blast
qed

lemma slice_last_snoc_nonempty: "0 < n \<Longrightarrow> slice_last n (xs @ [x]) \<noteq> []"
  by (simp add: slice_last_def)

lemma last_slice_last_snoc: "0 < n \<Longrightarrow> last (slice_last n (xs @ [x])) = x"
  by (simp add: slice_last_def)

lemma history_apply_mutation:
  "pushes m h \<Longrightarrow> history (apply_mutation m h) = slice_last MAX_HISTORY (history h @ [state h])"
  by (cases m)
    (simp_all add: history_setRows history_setColumns history_deleteChild history_endSelection)

lemma historyForward_apply_mutation:
  "pushes m h \<Longrightarrow> historyForward (apply_mutation m h) = []"
  by (cases m)
    (simp_all add: historyForward_setRows historyForward_setColumns historyForward_deleteChild
      historyForward_endSelection)

lemma undo_after_push:
  assumes "history h' = slice_last MAX_HISTORY (hs @ [s])"
  shows "undo h' = h'\<lparr>history := butlast (history h'),
                      historyForward := state h' # historyForward h',
                      state := s, selectedChildId := None\<rparr>"
proof -
  have "history h' \<noteq> []" "last (history h') = s"
    using assms by (simp_all add: slice_last_snoc_nonempty last_slice_last_snoc MAX_HISTORY_def)
  then show ?thesis
    by (simp add: undo_def Let_def deepCloneState_same)
qed

text \<open>
  C5: after a history-pushing mutation \<open>m\<close> of any hook \<open>h\<close>, \<open>undo\<close> restores the layout
  state \<open>h\<close> had and clears the selected child; \<open>redo\<close> right after that \<open>undo\<close> restores the
  state the mutation had made; a further history-pushing mutation \<open>m'\<close> after the \<open>undo\<close>
  leaves the redo stack empty (redo is then unavailable and does nothing); and \<open>undo\<close> on an
  empty undo stack changes nothing.
\<close>

theorem undo_redo:
  assumes "pushes m h"
  shows "state (undo (apply_mutation m h)) = state h
    \<and> selectedChildId (undo (apply_mutation m h)) = None
    \<and> canRedo (undo (apply_mutation m h))
    \<and> state (redo (undo (apply_mutation m h))) = state (apply_mutation m h)
    \<and> (pushes m' (undo (apply_mutation m h)) \<longrightarrow>
          historyForward (apply_mutation m' (undo (apply_mutation m h))) = []
          \<and> \<not> canRedo (apply_mutation m' (undo (apply_mutation m h)))
          \<and> redo (apply_mutation m' (undo (apply_mutation m h)))
              = apply_mutation m' (undo (apply_mutation m h)))
    \<and> (history g = [] \<longrightarrow> undo g = g)"
proof -
  let ?h1 = "apply_mutation m h"
  have u: "undo ?h1 = ?h1\<lparr>history := butlast (history ?h1),
                      historyForward := state ?h1 # historyForward ?h1,
                      state := state h, selectedChildId := None\<rparr>"
    using history_apply_mutation [OF assms] by (rule undo_after_push)
  have 1: "state (undo ?h1) = state h" and 2: "selectedChildId (undo ?h1) = None"
    and 3: "canRedo (undo ?h1)"
    by (simp_all add: u canRedo_def)
  have 4: "state (redo (undo ?h1)) = state ?h1"
    by (simp add: u redo_def deepCloneState_same)
  have 5: "pushes m' (undo ?h1) \<longrightarrow>
          historyForward (apply_mutation m' (undo ?h1)) = []
          \<and> \<not> canRedo (apply_mutation m' (undo ?h1))
          \<and> redo (apply_mutation m' (undo ?h1)) = apply_mutation m' (undo ?h1)"
    by (simp add: historyForward_apply_mutation canRedo_def redo_def)
  have 6: "history g = [] \<longrightarrow> undo g = g"
    by (simp add: undo_def)
  from 1 2 3 4 5 6 show ?thesis
    by blast
qed

theorem undo_redo_witness:
  "pushes (EndSelection ''id_1'')
     ((useGridState None)\<lparr>selectedChildId := Some ''x'',
        pendingSelection := [\<lparr>row = 0, column = 0\<rparr>, \<lparr>row = 1, column = 1\<rparr>]\<rparr>)
   \<and> state (undo (endSelection ''id_1''
        ((useGridState None)\<lparr>selectedChildId := Some ''x'',
           pendingSelection := [\<lparr>row = 0, column = 0\<rparr>, \<lparr>row = 1, column = 1\<rparr>]\<rparr>)))
       = defaultLayoutState
   \<and> selectedChildId (undo (endSelection ''id_1''
        ((useGridState None)\<lparr>selectedChildId := Some ''x'',
           pendingSelection := [\<lparr>row = 0, column = 0\<rparr>, \<lparr>row = 1, column = 1\<rparr>]\<rparr>)))
       = None
   \<and> state (redo (undo (endSelection ''id_1''
        ((useGridState None)\<lparr>selectedChildId := Some ''x'',
           pendingSelection := [\<lparr>row = 0, column = 0\<rparr>, \<lparr>row = 1, column = 1\<rparr>]\<rparr>))))
       = state (endSelection ''id_1''
        ((useGridState None)\<lparr>selectedChildId := Some ''x'',
           pendingSelection := [\<lparr>row = 0, column = 0\<rparr>, \<lparr>row = 1, column = 1\<rparr>]\<rparr>))
   \<and> pushes (SetRows 1) (undo (endSelection ''id_1''
        ((useGridState None)\<lparr>selectedChildId := Some ''x'',
           pendingSelection := [\<lparr>row = 0, column = 0\<rparr>, \<lparr>row = 1, column = 1\<rparr>]\<rparr>)))
   \<and> historyForward (setRows 1 (undo (endSelection ''id_1''
        ((useGridState None)\<lparr>selectedChildId := Some ''x'',
           pendingSelection := [\<lparr>row = 0, column = 0\<rparr>, \<lparr>row = 1, column = 1\<rparr>]\<rparr>))))
       = []
   \<and> history (useGridState None) = []
   \<and> undo (useGridState None) = useGridState None"
proof -
  let ?h = "(useGridState None)\<lparr>selectedChildId := Some ''x'',
        pendingSelection := [\<lparr>row = 0, column = 0\<rparr>, \<lparr>row = 1, column = 1\<rparr>]\<rparr>"
  have p: "pushes (EndSelection ''id_1'') ?h"
    by simp
  have q: "pushes (SetRows 1) (undo (endSelection ''id_1'' ?h))"
    by simp
  have e: "history (useGridState None) = []"
    by (simp add: useGridState_def)
  have s: "state ?h = defaultLayoutState"
    by (simp add: useGridState_def)
  note t = undo_redo [OF p, of "SetRows 1" "useGridState None"]
  have 1: "state (undo (endSelection ''id_1'' ?h)) = defaultLayoutState"
    using t s by simp
  have 2: "selectedChildId (undo (endSelection ''id_1'' ?h)) = None"
    using t by simp
  have 3: "state (redo (undo (endSelection ''id_1'' ?h))) = state (endSelection ''id_1'' ?h)"
    using t by simp
  have 4: "historyForward (setRows 1 (undo (endSelection ''id_1'' ?h))) = []"
    using t q by simp
  have 5: "undo (useGridState None) = useGridState None"
    using t e by blast
  show ?thesis
    using p q e 1 2 3 4 5 by blast
qed

section \<open>Properties: export and import\<close>

lemma importLayout_parse_error: "parse input = None \<Longrightarrow> importLayout parse input h = Rejected h"
  by (simp add: importLayout_def)

lemma importLayout_null: "parse input = Some JNull \<Longrightarrow> importLayout parse input h = Rejected h"
  by (simp add: importLayout_def)

lemma importLayout_version:
  "parse input = Some data \<Longrightarrow> getProp data ''version'' \<noteq> Some (JNum 1)
     \<Longrightarrow> importLayout parse input h = Rejected h"
  by (cases data) (simp_all add: importLayout_def Let_def)

lemma importLayout_breakpoints:
  "parse input = Some data
     \<Longrightarrow> \<not> truthy (case getProp data ''layout'' of None \<Rightarrow> None | Some l \<Rightarrow> getProp l ''breakpoints'')
     \<Longrightarrow> importLayout parse input h = Rejected h"
  by (cases data; cases "getProp data ''layout''")
    (auto simp: importLayout_def Let_def getProp_def split: json.splits)

lemma importLayout_activeBreakpoint:
  "parse input = Some data
     \<Longrightarrow> (case getProp data ''layout'' of None \<Rightarrow> None | Some l \<Rightarrow> getProp l ''activeBreakpoint'')
          \<notin> {Some (JStr ''desktop''), Some (JStr ''tablet''), Some (JStr ''mobile'')}
     \<Longrightarrow> importLayout parse input h = Rejected h"
  by (cases data; cases "getProp data ''layout''")
    (auto simp: importLayout_def Let_def split: json.splits)

lemma importLayout_outcomes:
  "importLayout parse input h = Rejected h
   \<or> (\<exists>s. importLayout parse input h
          = Accepted (h\<lparr>history := [], historyForward := [], selectedChildId := None, state := s\<rparr>))
   \<or> (\<exists>l. importLayout parse input h
          = AcceptedRaw l (h\<lparr>history := [], historyForward := [], selectedChildId := None\<rparr>))"
  by (auto simp: importLayout_def Let_def split: option.splits json.splits)

text \<open>
  C7, amended: \<open>importLayout\<close> returns false and leaves the hook (the layout state with it)
  as it was whenever the text is not valid JSON (\<open>JSON.parse\<close> throws), or the \<open>version\<close> of the
  parsed value is not the number 1, or the value has no \<open>layout.breakpoints\<close> (the layout or
  its \<open>breakpoints\<close> is missing, or is null, false, 0 or the empty text), or
  \<open>layout.activeBreakpoint\<close> is not one of the texts desktop, tablet, mobile. It raises no
  fault: for every text, whatever \<open>JSON.parse\<close> does with it (the parsed value null, on
  which reading \<open>version\<close> throws, included), the outcome is that rejection or a return of
  true. A \<open>breakpoints\<close> value that is present and truthy passes the test, map or not.
\<close>

theorem importLayout_rejects:
  "(parse input = None \<longrightarrow> importLayout parse input h = Rejected h)
   \<and> (parse input = Some JNull \<longrightarrow> importLayout parse input h = Rejected h)
   \<and> (parse input = Some data \<and> getProp data ''version'' \<noteq> Some (JNum 1)
        \<longrightarrow> importLayout parse input h = Rejected h)
   \<and> (parse input = Some data
        \<and> \<not> truthy (case getProp data ''layout'' of None \<Rightarrow> None
                     | Some l \<Rightarrow> getProp l ''breakpoints'')
        \<longrightarrow> importLayout parse input h = Rejected h)
   \<and> (parse input = Some data
        \<and> (case getProp data ''layout'' of None \<Rightarrow> None | Some l \<Rightarrow> getProp l ''activeBreakpoint'')
            \<notin> {Some (JStr ''desktop''), Some (JStr ''tablet''), Some (JStr ''mobile'')}
        \<longrightarrow> importLayout parse input h = Rejected h)
   \<and> \<not> returned (Rejected h)
   \<and> (returned (importLayout parse input h) \<or> importLayout parse input h = Rejected h)"
proof -
  have "returned (importLayout parse input h) \<or> importLayout parse input h = Rejected h"
    using importLayout_outcomes [of parse input h] by auto
  then show ?thesis
    using importLayout_parse_error [of parse input h] importLayout_null [of parse input h]
      importLayout_version [of parse input data h] importLayout_breakpoints [of parse input data h]
      importLayout_activeBreakpoint [of parse input data h]
    by simp
qed

theorem importLayout_rejects_witness:
  \<open>map_of [(''null'', JNull),
           (''{"version":2}'', JObj [(''version'', JNum 2)]),
           (''{"version":1,"layout":{"activeBreakpoint":"desktop"}}'',
              JObj [(''version'', JNum 1),
                    (''layout'', JObj [(''activeBreakpoint'', JStr ''desktop'')])]),
           (''{"version":1,"layout":{"breakpoints":{},"activeBreakpoint":"phone"}}'',
              JObj [(''version'', JNum 1),
                    (''layout'', JObj [(''breakpoints'', JObj []),
                                       (''activeBreakpoint'', JStr ''phone'')])])]
      ''{"version":'' = None
   \<and> (let parse = map_of [(''null'', JNull),
           (''{"version":2}'', JObj [(''version'', JNum 2)]),
           (''{"version":1,"layout":{"activeBreakpoint":"desktop"}}'',
              JObj [(''version'', JNum 1),
                    (''layout'', JObj [(''activeBreakpoint'', JStr ''desktop'')])]),
           (''{"version":1,"layout":{"breakpoints":{},"activeBreakpoint":"phone"}}'',
              JObj [(''version'', JNum 1),
                    (''layout'', JObj [(''breakpoints'', JObj []),
                                       (''activeBreakpoint'', JStr ''phone'')])])];
          h = useGridState None
      in importLayout parse ''{"version":'' h = Rejected h
         \<and> importLayout parse ''null'' h = Rejected h
         \<and> importLayout parse ''{"version":2}'' h = Rejected h
         \<and> importLayout parse ''{"version":1,"layout":{"activeBreakpoint":"desktop"}}'' h
             = Rejected h
         \<and> importLayout parse
               ''{"version":1,"layout":{"breakpoints":{},"activeBreakpoint":"phone"}}'' h
             = Rejected h)\<close>
proof -
  define parse where \<open>parse = map_of [(''null'', JNull),
           (''{"version":2}'', JObj [(''version'', JNum 2)]),
           (''{"version":1,"layout":{"activeBreakpoint":"desktop"}}'',
              JObj [(''version'', JNum 1),
                    (''layout'', JObj [(''activeBreakpoint'', JStr ''desktop'')])]),
           (''{"version":1,"layout":{"breakpoints":{},"activeBreakpoint":"phone"}}'',
              JObj [(''version'', JNum 1),
                    (''layout'', JObj [(''breakpoints'', JObj []),
                                       (''activeBreakpoint'', JStr ''phone'')])])]\<close>
  define h where "h = useGridState None"
  have p1: \<open>parse ''{"version":'' = None\<close>
    by (simp add: parse_def)
  have p2: \<open>parse ''null'' = Some JNull\<close>
    by (simp add: parse_def)
  have p3: \<open>parse ''{"version":2}'' = Some (JObj [(''version'', JNum 2)])\<close>
    by (simp add: parse_def)
  have p4: \<open>parse ''{"version":1,"layout":{"activeBreakpoint":"desktop"}}''
      = Some (JObj [(''version'', JNum 1),
                    (''layout'', JObj [(''activeBreakpoint'', JStr ''desktop'')])])\<close>
    by (simp add: parse_def)
  have p5: \<open>parse ''{"version":1,"layout":{"breakpoints":{},"activeBreakpoint":"phone"}}''
      = Some (JObj [(''version'', JNum 1),
                    (''layout'', JObj [(''breakpoints'', JObj []),
                                       (''activeBreakpoint'', JStr ''phone'')])])\<close>
    by (simp add: parse_def)
  have 1: \<open>importLayout parse ''{"version":'' h = Rejected h\<close>
    using importLayout_rejects [of parse \<open>''{"version":''\<close> h] p1 by simp
  have 2: \<open>importLayout parse ''null'' h = Rejected h\<close>
    using importLayout_rejects [of parse \<open>''null''\<close> h] p2 by simp
  have 3: \<open>importLayout parse ''{"version":2}'' h = Rejected h\<close>
    using importLayout_rejects [of parse \<open>''{"version":2}''\<close> h \<open>JObj [(''version'', JNum 2)]\<close>] p3
    by (simp add: getProp_def)
  have 4: \<open>importLayout parse ''{"version":1,"layout":{"activeBreakpoint":"desktop"}}'' h
      = Rejected h\<close>
    using importLayout_rejects [of parse
        \<open>''{"version":1,"layout":{"activeBreakpoint":"desktop"}}''\<close> h
        \<open>JObj [(''version'', JNum 1),
               (''layout'', JObj [(''activeBreakpoint'', JStr ''desktop'')])]\<close>] p4
    by (simp add: getProp_def)
  have 5: \<open>importLayout parse
        ''{"version":1,"layout":{"breakpoints":{},"activeBreakpoint":"phone"}}'' h = Rejected h\<close>
    using importLayout_rejects [of parse
        \<open>''{"version":1,"layout":{"breakpoints":{},"activeBreakpoint":"phone"}}''\<close> h
        \<open>JObj [(''version'', JNum 1),
               (''layout'', JObj [(''breakpoints'', JObj []),
                                  (''activeBreakpoint'', JStr ''phone'')])]\<close>] p5
    by (simp add: getProp_def)
  show ?thesis
    using p1 1 2 3 4 5 unfolding parse_def h_def Let_def by blast
qed

text \<open>
  C7, as stated, fails where \<open>layout.breakpoints\<close> is present and truthy but is no map:
  the test \<open>!data.layout?.breakpoints\<close> only asks whether the value is falsy. For the text
  below, whose \<open>breakpoints\<close> is the number 5, \<open>importLayout\<close> returns true and stores
  the layout it was given, which is no \<open>LayoutState\<close>.
\<close>

theorem importLayout_accepts_breakpoints_not_map:
  \<open>importLayout
     (map_of [(''{"version":1,"layout":{"breakpoints":5,"activeBreakpoint":"desktop"}}'',
               JObj [(''version'', JNum 1),
                     (''layout'', JObj [(''breakpoints'', JNum 5),
                                        (''activeBreakpoint'', JStr ''desktop'')])])])
     ''{"version":1,"layout":{"breakpoints":5,"activeBreakpoint":"desktop"}}''
     (useGridState None)
   = AcceptedRaw (JObj [(''breakpoints'', JNum 5), (''activeBreakpoint'', JStr ''desktop'')])
       ((useGridState None)\<lparr>history := [], historyForward := [], selectedChildId := None\<rparr>)
   \<and> returned (importLayout
     (map_of [(''{"version":1,"layout":{"breakpoints":5,"activeBreakpoint":"desktop"}}'',
               JObj [(''version'', JNum 1),
                     (''layout'', JObj [(''breakpoints'', JNum 5),
                                        (''activeBreakpoint'', JStr ''desktop'')])])])
     ''{"version":1,"layout":{"breakpoints":5,"activeBreakpoint":"desktop"}}''
     (useGridState None))\<close>
proof -
  have \<open>importLayout
     (map_of [(''{"version":1,"layout":{"breakpoints":5,"activeBreakpoint":"desktop"}}'',
               JObj [(''version'', JNum 1),
                     (''layout'', JObj [(''breakpoints'', JNum 5),
                                        (''activeBreakpoint'', JStr ''desktop'')])])])
     ''{"version":1,"layout":{"breakpoints":5,"activeBreakpoint":"desktop"}}''
     (useGridState None)
   = AcceptedRaw (JObj [(''breakpoints'', JNum 5), (''activeBreakpoint'', JStr ''desktop'')])
       ((useGridState None)\<lparr>history := [], historyForward := [], selectedChildId := None\<rparr>)\<close>
    by (simp add: importLayout_def getProp_def Let_def asLayoutState_def field_def
        asBreakpoints_def)
  then show ?thesis
    by simp
qed

lemma importLayout_accepts:
  assumes "parse input = Some (JObj kvs)"
    and "map_of kvs ''version'' = Some (JNum 1)"
    and "map_of kvs ''layout'' = Some (JObj l)"
    and "truthy (map_of l ''breakpoints'')"
    and "map_of l ''activeBreakpoint''
          \<in> {Some (JStr ''desktop''), Some (JStr ''tablet''), Some (JStr ''mobile'')}"
    and "asLayoutState (JObj l) = Some s"
  shows "importLayout parse input h
     = Accepted (h\<lparr>history := [], historyForward := [], selectedChildId := None, state := s\<rparr>)"
  using assms by (simp add: importLayout_def getProp_def Let_def)

lemma breakpointId_json_known:
  "Some (breakpointId_json b) \<in> {Some (JStr ''desktop''), Some (JStr ''tablet''), Some (JStr ''mobile'')}"
  by (cases b) simp_all

text \<open>
  C2: for every layout state, \<open>importLayout\<close> applied to the text \<open>exportLayout\<close> produced
  from that state returns true and makes that state the current one (whatever the hook it
  is applied to held, and whatever the \<open>exportedAt\<close> time was); both history stacks and the
  selected child are reset. \<open>JSON.parse\<close> and \<open>JSON.stringify\<close> are taken to be what
  they are: parsing the text written for the exported object gives that object back.
\<close>

theorem export_import_roundtrip:
  assumes "parse (stringify (exportData now h)) = Some (exportData now h)"
  shows "importLayout parse (exportLayout stringify now h) h'
     = Accepted (h'\<lparr>history := [], historyForward := [], selectedChildId := None,
                    state := state h\<rparr>)
   \<and> returned (importLayout parse (exportLayout stringify now h) h')"
proof -
  let ?l = "[(''activeBreakpoint'', breakpointId_json (activeBreakpoint (state h))),
             (''breakpoints'', breakpoints_json (breakpoints (state h)))]"
  have l: "layout_json (state h) = JObj ?l"
    by (simp add: layout_json_def)
  have p: "parse (exportLayout stringify now h)
      = Some (JObj [(''version'', JNum 1), (''layout'', JObj ?l), (''exportedAt'', JStr now)])"
    using assms by (simp add: exportLayout_def exportData_def deepCloneState_same l)
  have t: "truthy (map_of ?l ''breakpoints'')"
    by (simp add: breakpoints_json_def)
  have a: "map_of ?l ''activeBreakpoint''
      \<in> {Some (JStr ''desktop''), Some (JStr ''tablet''), Some (JStr ''mobile'')}"
    using breakpointId_json_known [of "activeBreakpoint (state h)"] by simp
  have s: "asLayoutState (JObj ?l) = Some (state h)"
    using asLayoutState_roundtrip [of "state h"] by (simp only: l)
  have v: "map_of [(''version'', JNum 1), (''layout'', JObj ?l), (''exportedAt'', JStr now)]
      ''version'' = Some (JNum 1)"
    by simp
  have ly: "map_of [(''version'', JNum 1), (''layout'', JObj ?l), (''exportedAt'', JStr now)]
      ''layout'' = Some (JObj ?l)"
    by simp
  have "importLayout parse (exportLayout stringify now h) h'
     = Accepted (h'\<lparr>history := [], historyForward := [], selectedChildId := None,
                    state := state h\<rparr>)"
    by (rule importLayout_accepts [of parse "exportLayout stringify now h", OF p v ly t a s])
  then show ?thesis
    by simp
qed

theorem export_import_roundtrip_witness:
  "(let h = endSelection ''id_1'' (startSelection \<lparr>row = 0, column = 0\<rparr> (useGridState None));
        now = ''2026-01-01T00:00:00.000Z'';
        stringify = (\<lambda>v. ''exported'');
        parse = (\<lambda>t. if t = ''exported'' then Some (exportData now h) else None)
    in parse (stringify (exportData now h)) = Some (exportData now h)
       \<and> importLayout parse (exportLayout stringify now h) (setRows 1 (useGridState None))
           = Accepted ((setRows 1 (useGridState None))
               \<lparr>history := [], historyForward := [], selectedChildId := None, state := state h\<rparr>)
       \<and> returned (importLayout parse (exportLayout stringify now h) (setRows 1 (useGridState None))))"
proof -
  define h where "h = endSelection ''id_1'' (startSelection \<lparr>row = 0, column = 0\<rparr> (useGridState None))"
  define stringify where "stringify = (\<lambda>v :: json. ''exported'')"
  define parse where
    "parse = (\<lambda>t. if t = ''exported'' then Some (exportData ''2026-01-01T00:00:00.000Z'' h) else None)"
  have p: "parse (stringify (exportData ''2026-01-01T00:00:00.000Z'' h))
      = Some (exportData ''2026-01-01T00:00:00.000Z'' h)"
    by (simp add: parse_def stringify_def)
  note t = export_import_roundtrip [of parse stringify "''2026-01-01T00:00:00.000Z''" h
      "setRows 1 (useGridState None)"]
  show ?thesis
    using t [OF p] unfolding Let_def h_def [symmetric] parse_def [symmetric]
    by (simp add: stringify_def)
qed

end
